theory Spec2Isabelle
  imports Complex_Main
begin

section \<open>Exceptions\<close>

text \<open>
  The exceptions the modelled code can raise.  A function of the source that can raise
  returns \<open>py_error + 'a\<close>, with \<open>Inl\<close> the exception.
\<close>

datatype py_error = KeyError | IndexError | TypeError | AttributeError | JSONDecodeError

section \<open>Rate limiter (\<open>class RateLimiter\<close>, app.py)\<close>

text \<open>
  \<open>self.limits\<close> maps a role to \<open>{'max_requests': n, 'window': w}\<close>;
  \<open>self.requests\<close> is a \<open>defaultdict(list)\<close> from a user id to the list of
  the times of its admitted requests.  Times are the values of \<open>time.time()\<close>, taken
  as real numbers of seconds; the clock reading is an argument of the model.
\<close>

record limit_config =
  max_requests :: nat
  window :: nat

record rate_limiter =
  requests :: "string \<rightharpoonup> real list"
  limits :: "string \<rightharpoonup> limit_config"

definition RateLimiter_init :: rate_limiter where
  "RateLimiter_init =
     \<lparr>requests = Map.empty,
      limits = [''user'' \<mapsto> \<lparr>max_requests = 10, window = 60\<rparr>,
                ''admin'' \<mapsto> \<lparr>max_requests = 50, window = 60\<rparr>]\<rparr>"

text \<open>Reading \<open>self.requests[user_id]\<close>: a missing key reads as the empty list.\<close>

definition requests_get :: "rate_limiter \<Rightarrow> string \<Rightarrow> real list" where
  "requests_get rl user_id = (case requests rl user_id of None \<Rightarrow> [] | Some ts \<Rightarrow> ts)"

text \<open>
  \<open>is_allowed(user_id, role)\<close> at clock reading \<open>current_time\<close>.  The result is
  the returned pair together with the limiter after the call.  The default argument
  \<open>self.limits['user']\<close> is evaluated before \<open>get\<close> and raises when the key is
  missing.
\<close>

definition is_allowed ::
  "rate_limiter \<Rightarrow> string \<Rightarrow> string \<Rightarrow> real \<Rightarrow> py_error + (bool \<times> limit_config \<times> rate_limiter)"
where
  "is_allowed rl user_id role current_time =
     (case limits rl ''user'' of
        None \<Rightarrow> Inl KeyError
      | Some dflt \<Rightarrow>
          (let limit_config = (case limits rl role of Some c \<Rightarrow> c | None \<Rightarrow> dflt);
               kept = [req_time \<leftarrow> requests_get rl user_id.
                         current_time - req_time < real (window limit_config)];
               rl1 = rl\<lparr>requests := (requests rl)(user_id \<mapsto> kept)\<rparr>
           in if length kept \<ge> max_requests limit_config
              then Inr (False, limit_config, rl1)
              else Inr (True, limit_config,
                        rl1\<lparr>requests := (requests rl1)(user_id \<mapsto> kept @ [current_time])\<rparr>)))"






text \<open>
  Wording of the pruning step as the design text has it: a timestamp is pruned when it
  is older than \<open>now - window_seconds\<close>, so the remaining ones are those not older.
\<close>

definition remaining_as_specified :: "real list \<Rightarrow> real \<Rightarrow> nat \<Rightarrow> real list" where
  "remaining_as_specified ts now w = [t \<leftarrow> ts. \<not> t < now - real w]"




section \<open>Authentication middleware (\<open>require_auth\<close>, app.py)\<close>

text \<open>
  The three identity headers as \<open>request.headers.get\<close> returns them: \<open>None\<close> for
  an absent header, the text otherwise.
\<close>

record headers =
  x_user_id :: "string option"
  x_user_role :: "string option"
  x_user_name :: "string option"

record identity =
  user_id :: string
  user_role :: string
  user_name :: string

text \<open>
  The three rejections, with the fields of their JSON bodies that carry data:
  \<open>provided_role\<close> for 400, and \<open>max_requests\<close>, \<open>window\<close> and
  \<open>retry_after\<close> for 429.
\<close>

datatype rejection =
    MissingCredentials
  | InvalidRole string
  | RateLimited nat nat nat

fun status_code :: "rejection \<Rightarrow> nat" where
  "status_code MissingCredentials = 401"
| "status_code (InvalidRole provided_role) = 400"
| "status_code (RateLimited m w retry_after) = 429"

text \<open>Python truthiness of a header value: \<open>None\<close> and the empty string are false.\<close>

definition truthy :: "string option \<Rightarrow> bool" where
  "truthy v = (case v of None \<Rightarrow> False | Some s \<Rightarrow> s \<noteq> [])"

text \<open>
  \<open>decorated_function\<close>: the wrapped handler \<open>f\<close> is given the identity that the
  code attaches to the request.  The result is the response (a rejection, or what the
  handler returns) and the limiter after the request.
\<close>

definition require_auth ::
  "(identity \<Rightarrow> 'r) \<Rightarrow> headers \<Rightarrow> rate_limiter \<Rightarrow> real \<Rightarrow> py_error + ((rejection + 'r) \<times> rate_limiter)"
where
  "require_auth f hs rl now =
     (if \<not> list_all truthy [x_user_id hs, x_user_role hs, x_user_name hs]
      then Inr (Inl MissingCredentials, rl)
      else
        (case (x_user_id hs, x_user_role hs, x_user_name hs) of
           (Some uid, Some role, Some name) \<Rightarrow>
             if role \<notin> set [''user'', ''admin'']
             then Inr (Inl (InvalidRole role), rl)
             else
               (case is_allowed rl uid role now of
                  Inl e \<Rightarrow> Inl e
                | Inr (allowed, limit_config, rl') \<Rightarrow>
                    if \<not> allowed
                    then Inr (Inl (RateLimited (max_requests limit_config) (window limit_config)
                                    (window limit_config)), rl')
                    else Inr (Inr (f \<lparr>user_id = uid, user_role = role, user_name = name\<rparr>), rl'))
         | _ \<Rightarrow> Inr (Inl MissingCredentials, rl)))"

text \<open>Requests served one after the other, each with its clock reading.\<close>

fun handle_all ::
  "(identity \<Rightarrow> 'r) \<Rightarrow> rate_limiter \<Rightarrow> (headers \<times> real) list \<Rightarrow>
     py_error + ((rejection + 'r) list \<times> rate_limiter)"
where
  "handle_all f rl [] = Inr ([], rl)"
| "handle_all f rl (q # qs) =
     (case require_auth f (fst q) rl (snd q) of
        Inl e \<Rightarrow> Inl e
      | Inr (resp, rl') \<Rightarrow>
          (case handle_all f rl' qs of
             Inl e \<Rightarrow> Inl e
           | Inr (resps, rl'') \<Rightarrow> Inr (resp # resps, rl'')))"

text \<open>
  A request that fails the first or the second check, and the rejection it is due:
  the header check comes first.
\<close>

definition credentials_missing :: "headers \<Rightarrow> bool" where
  "credentials_missing hs = (\<not> truthy (x_user_id hs) \<or> \<not> truthy (x_user_role hs) \<or> \<not> truthy (x_user_name hs))"

definition role_invalid :: "headers \<Rightarrow> bool" where
  "role_invalid hs = (case x_user_role hs of None \<Rightarrow> False | Some role \<Rightarrow> role \<noteq> ''user'' \<and> role \<noteq> ''admin'')"

definition rejection_of :: "headers \<Rightarrow> rejection" where
  "rejection_of hs =
     (if credentials_missing hs then MissingCredentials
      else InvalidRole (case x_user_role hs of None \<Rightarrow> [] | Some role \<Rightarrow> role))"

section \<open>Python values\<close>

text \<open>
  The Python values the modelled code handles: what \<open>json\<close> decodes (\<open>None\<close>,
  booleans, integers, floats, strings, lists, dicts with string keys) and objects with
  named attributes, such as the models of the inference SDK.  A dict and the attributes
  of an object are association lists looked up with \<open>map_of\<close>.  Strings are lists
  of ASCII characters.
\<close>

datatype pyval =
    PNone
  | PBool bool
  | PInt int
  | PFloat real
  | PStr string
  | PList "pyval list"
  | PDict "(string \<times> pyval) list"
  | PObj "(string \<times> pyval) list"

text \<open>Sequencing: the first exception ends the computation.\<close>

definition py_bind :: "py_error + 'a \<Rightarrow> ('a \<Rightarrow> py_error + 'b) \<Rightarrow> py_error + 'b" where
  "py_bind m k = (case m of Inl e \<Rightarrow> Inl e | Inr x \<Rightarrow> k x)"

text \<open>
  \<open>v.get(key, dflt)\<close>, \<open>v[key]\<close> for a string key, \<open>v[0]\<close>,
  \<open>v.name\<close>, \<open>hasattr(v, name)\<close> and the elements of \<open>for x in v\<close>.
\<close>

definition py_get :: "pyval \<Rightarrow> string \<Rightarrow> pyval \<Rightarrow> py_error + pyval" where
  "py_get v key dflt =
     (case v of
        PDict kvs \<Rightarrow> Inr (case map_of kvs key of None \<Rightarrow> dflt | Some x \<Rightarrow> x)
      | _ \<Rightarrow> Inl AttributeError)"

definition py_item :: "pyval \<Rightarrow> string \<Rightarrow> py_error + pyval" where
  "py_item v key =
     (case v of
        PDict kvs \<Rightarrow> (case map_of kvs key of None \<Rightarrow> Inl KeyError | Some x \<Rightarrow> Inr x)
      | _ \<Rightarrow> Inl TypeError)"

definition py_index0 :: "pyval \<Rightarrow> py_error + pyval" where
  "py_index0 v =
     (case v of
        PList xs \<Rightarrow> (case xs of [] \<Rightarrow> Inl IndexError | x # _ \<Rightarrow> Inr x)
      | PStr s \<Rightarrow> (case s of [] \<Rightarrow> Inl IndexError | c # _ \<Rightarrow> Inr (PStr [c]))
      | PDict kvs \<Rightarrow> Inl KeyError
      | _ \<Rightarrow> Inl TypeError)"

definition py_getattr :: "pyval \<Rightarrow> string \<Rightarrow> py_error + pyval" where
  "py_getattr v name =
     (case v of
        PObj attrs \<Rightarrow> (case map_of attrs name of None \<Rightarrow> Inl AttributeError | Some x \<Rightarrow> Inr x)
      | _ \<Rightarrow> Inl AttributeError)"

definition hasattr :: "pyval \<Rightarrow> string \<Rightarrow> bool" where
  "hasattr v name = (case v of PObj attrs \<Rightarrow> map_of attrs name \<noteq> None | _ \<Rightarrow> False)"

definition py_iter :: "pyval \<Rightarrow> py_error + pyval list" where
  "py_iter v =
     (case v of
        PList xs \<Rightarrow> Inr xs
      | PDict kvs \<Rightarrow> Inr (map (\<lambda>kv. PStr (fst kv)) kvs)
      | PStr s \<Rightarrow> Inr (map (\<lambda>c. PStr [c]) s)
      | _ \<Rightarrow> Inl TypeError)"

text \<open>
  \<open>str.upper\<close> and \<open>str.strip\<close> on ASCII text; the white space of
  \<open>strip\<close> is the characters 9 to 13 and 28 to 32.
\<close>

definition upper_char :: "char \<Rightarrow> char" where
  "upper_char c =
     (case map_of (zip ''abcdefghijklmnopqrstuvwxyz'' ''ABCDEFGHIJKLMNOPQRSTUVWXYZ'') c of
        None \<Rightarrow> c
      | Some u \<Rightarrow> u)"

definition upper :: "string \<Rightarrow> string" where
  "upper s = map upper_char s"

definition isspace :: "char \<Rightarrow> bool" where
  "isspace c = (let n = (of_char c :: nat) in (9 \<le> n \<and> n \<le> 13) \<or> (28 \<le> n \<and> n \<le> 32))"

definition strip :: "string \<Rightarrow> string" where
  "strip s = rev (dropWhile isspace (rev (dropWhile isspace s)))"

text \<open>
  \<open>str(v)\<close>.  The text of a float, a list, a dict or an object is left to the
  parameter \<open>repr\<close>.
\<close>

fun nat_digits :: "nat \<Rightarrow> string" where
  "nat_digits n =
     (if n < 10 then [''0123456789'' ! n] else nat_digits (n div 10) @ [''0123456789'' ! (n mod 10)])"

definition py_str :: "(pyval \<Rightarrow> string) \<Rightarrow> pyval \<Rightarrow> string" where
  "py_str repr v =
     (case v of
        PStr s \<Rightarrow> s
      | PNone \<Rightarrow> ''None''
      | PBool b \<Rightarrow> (if b then ''True'' else ''False'')
      | PInt i \<Rightarrow> (if i < 0 then CHR ''-'' # nat_digits (nat (- i)) else nat_digits (nat i))
      | _ \<Rightarrow> repr v)"


section \<open>Catalogue and cart mirrors (\<open>ProductCatalog\<close>, \<open>ShoppingCart\<close>)\<close>

text \<open>
  What \<open>requests.get(self.api_url, timeout=10)\<close> gives: it raises (no connection,
  timeout), or returns a response with a status code and a body; the body is
  \<open>None\<close> when \<open>response.json()\<close> raises, the decoded value otherwise.
\<close>

datatype http_outcome = RequestFailed | Response nat "pyval option"

record product_catalog =
  products :: "pyval list"
  catalog_last_updated :: "string option"

text \<open>
  \<open>ProductCatalog._load_products\<close>.  The exception handler returns \<open>False\<close>
  and leaves \<open>self.products\<close> as the statements before the exception made it.
  \<open>stamp\<close> is \<open>datetime.now().isoformat()\<close>.
\<close>

definition field_or_none :: "(string \<times> pyval) list \<Rightarrow> string \<Rightarrow> pyval" where
  "field_or_none kvs key = (case map_of kvs key of None \<Rightarrow> PNone | Some x \<Rightarrow> x)"

definition product_of :: "pyval \<Rightarrow> py_error + pyval" where
  "product_of p =
     (case p of
        PDict kvs \<Rightarrow>
          Inr (PDict [(''id'', field_or_none kvs ''product_id''),
                      (''name'', field_or_none kvs ''name''),
                      (''category'', field_or_none kvs ''category''),
                      (''description'', field_or_none kvs ''description''),
                      (''price'', field_or_none kvs ''price''),
                      (''stock'', field_or_none kvs ''quantity''),
                      (''image_url'', field_or_none kvs ''image_url'')])
      | _ \<Rightarrow> Inl AttributeError)"

fun products_loop :: "pyval list \<Rightarrow> pyval list \<Rightarrow> bool \<times> pyval list" where
  "products_loop acc [] = (True, acc)"
| "products_loop acc (p # ps) =
     (case product_of p of
        Inl e \<Rightarrow> (False, acc)
      | Inr d \<Rightarrow> products_loop (acc @ [d]) ps)"

definition load_products :: "product_catalog \<Rightarrow> http_outcome \<Rightarrow> string \<Rightarrow> bool \<times> product_catalog" where
  "load_products cat outcome stamp =
     (case outcome of
        RequestFailed \<Rightarrow> (False, cat)
      | Response status body \<Rightarrow>
          if 400 \<le> status \<and> status < 600 then (False, cat)
          else
            (case body of
               None \<Rightarrow> (False, cat)
             | Some data \<Rightarrow>
                 (let cat1 = cat\<lparr>products := []\<rparr> in
                  case py_bind (py_get data ''items'' (PList [])) py_iter of
                    Inl e \<Rightarrow> (False, cat1)
                  | Inr ps \<Rightarrow>
                      (case products_loop [] ps of
                         (False, acc) \<Rightarrow> (False, cat1\<lparr>products := acc\<rparr>)
                       | (True, acc) \<Rightarrow>
                           (True, cat1\<lparr>products := acc, catalog_last_updated := Some stamp\<rparr>)))))"

text \<open>\<open>ProductCatalog.refresh\<close> and \<open>get_all_products\<close>.\<close>

definition ProductCatalog_refresh :: "product_catalog \<Rightarrow> http_outcome \<Rightarrow> string \<Rightarrow> bool \<times> product_catalog" where
  "ProductCatalog_refresh cat outcome stamp = load_products cat outcome stamp"

definition get_all_products :: "product_catalog \<Rightarrow> pyval list" where
  "get_all_products cat = products cat"

text \<open>\<open>ShoppingCart._load_cart\<close> and \<open>get_user_cart\<close>.\<close>

record shopping_cart =
  cart_items :: "string \<rightharpoonup> pyval list"
  cart_last_updated :: "string option"

definition cart_item_of :: "(string \<times> pyval) list \<Rightarrow> pyval" where
  "cart_item_of kvs =
     PDict [(''cart_item_id'', field_or_none kvs ''cart_item_id''),
            (''product_id'', field_or_none kvs ''product_id''),
            (''name'', field_or_none kvs ''name''),
            (''price'', field_or_none kvs ''price''),
            (''quantity'', field_or_none kvs ''quantity''),
            (''image_url'', field_or_none kvs ''image_url'')]"

definition bucket_of :: "(pyval \<Rightarrow> string) \<Rightarrow> (string \<times> pyval) list \<Rightarrow> string" where
  "bucket_of repr kvs =
     py_str repr (case map_of kvs ''user_id'' of None \<Rightarrow> PStr ''0'' | Some x \<Rightarrow> x)"

fun cart_loop ::
  "(pyval \<Rightarrow> string) \<Rightarrow> (string \<rightharpoonup> pyval list) \<Rightarrow> pyval list \<Rightarrow> bool \<times> (string \<rightharpoonup> pyval list)"
where
  "cart_loop repr buckets [] = (True, buckets)"
| "cart_loop repr buckets (item # items) =
     (case item of
        PDict kvs \<Rightarrow>
          (let uid = bucket_of repr kvs;
               buckets1 = (if uid \<notin> dom buckets then buckets(uid \<mapsto> []) else buckets)
           in cart_loop repr
                (buckets1(uid \<mapsto> (case buckets1 uid of None \<Rightarrow> [] | Some b \<Rightarrow> b) @ [cart_item_of kvs]))
                items)
      | _ \<Rightarrow> (False, buckets))"

definition load_cart ::
  "(pyval \<Rightarrow> string) \<Rightarrow> shopping_cart \<Rightarrow> http_outcome \<Rightarrow> string \<Rightarrow> bool \<times> shopping_cart"
where
  "load_cart repr cart outcome stamp =
     (case outcome of
        RequestFailed \<Rightarrow> (False, cart)
      | Response status body \<Rightarrow>
          if 400 \<le> status \<and> status < 600 then (False, cart)
          else
            (case body of
               None \<Rightarrow> (False, cart)
             | Some data \<Rightarrow>
                 (let cart1 = cart\<lparr>cart_items := Map.empty\<rparr> in
                  case py_bind (py_get data ''items'' (PList [])) py_iter of
                    Inl e \<Rightarrow> (False, cart1)
                  | Inr items \<Rightarrow>
                      (case cart_loop repr Map.empty items of
                         (False, buckets) \<Rightarrow> (False, cart1\<lparr>cart_items := buckets\<rparr>)
                       | (True, buckets) \<Rightarrow>
                           (True, cart1\<lparr>cart_items := buckets, cart_last_updated := Some stamp\<rparr>)))))"

definition ShoppingCart_refresh ::
  "(pyval \<Rightarrow> string) \<Rightarrow> shopping_cart \<Rightarrow> http_outcome \<Rightarrow> string \<Rightarrow> bool \<times> shopping_cart"
where
  "ShoppingCart_refresh repr c outcome stamp = load_cart repr c outcome stamp"

definition get_user_cart :: "(pyval \<Rightarrow> string) \<Rightarrow> shopping_cart \<Rightarrow> pyval \<Rightarrow> pyval list" where
  "get_user_cart repr cart uid =
     (case cart_items cart (py_str repr uid) of None \<Rightarrow> [] | Some b \<Rightarrow> b)"


section \<open>Prompt assembly\<close>

text \<open>
  \<open>ShoppingAssistant._build_chat_request\<close>.  A message has a role and a list of
  text contents.  The text of the system prompt is formatted from the catalogue and
  the cart; its outcome (the text, or the exception of the formatting) is a parameter.
\<close>

datatype oci_role = ROLE_SYSTEM | ROLE_USER | ROLE_ASSISTANT

record message =
  role :: oci_role
  content :: "pyval list"

definition py_upper :: "pyval \<Rightarrow> py_error + string" where
  "py_upper v = (case v of PStr s \<Rightarrow> Inr (upper s) | _ \<Rightarrow> Inl AttributeError)"

fun history_loop :: "message list \<Rightarrow> pyval list \<Rightarrow> py_error + message list" where
  "history_loop messages [] = Inr messages"
| "history_loop messages (msg # rest) =
     (case py_bind (py_item msg ''role'') py_upper of
        Inl e \<Rightarrow> Inl e
      | Inr role_str \<Rightarrow>
          if role_str = ''USER'' then
            (case py_item msg ''content'' of
               Inl e \<Rightarrow> Inl e
             | Inr text \<Rightarrow> history_loop (messages @ [\<lparr>role = ROLE_USER, content = [text]\<rparr>]) rest)
          else if role_str \<in> set [''MODEL'', ''ASSISTANT''] then
            (case py_item msg ''content'' of
               Inl e \<Rightarrow> Inl e
             | Inr text \<Rightarrow> history_loop (messages @ [\<lparr>role = ROLE_ASSISTANT, content = [text]\<rparr>]) rest)
          else history_loop messages rest)"

definition build_messages :: "py_error + string \<Rightarrow> pyval \<Rightarrow> pyval list \<Rightarrow> py_error + message list" where
  "build_messages system_prompt user_message history =
     (case system_prompt of
        Inl e \<Rightarrow> Inl e
      | Inr text \<Rightarrow>
          (case history_loop [\<lparr>role = ROLE_SYSTEM, content = [PStr text]\<rparr>] history of
             Inl e \<Rightarrow> Inl e
           | Inr messages \<Rightarrow> Inr (messages @ [\<lparr>role = ROLE_USER, content = [user_message]\<rparr>])))"

text \<open>\<open>ConfigLoader.get(*keys)\<close> on the decoded configuration.\<close>

fun cfg_get :: "pyval \<Rightarrow> string list \<Rightarrow> py_error + pyval" where
  "cfg_get v [] = Inr v"
| "cfg_get v (key # keys) = (case py_item v key of Inl e \<Rightarrow> Inl e | Inr x \<Rightarrow> cfg_get x keys)"

record chat_request =
  messages :: "message list"
  max_tokens :: pyval
  temperature :: pyval
  frequency_penalty :: pyval
  presence_penalty :: pyval
  top_p :: pyval
  top_k :: pyval

definition build_chat_request ::
  "pyval \<Rightarrow> py_error + string \<Rightarrow> pyval \<Rightarrow> pyval list \<Rightarrow> py_error + chat_request"
where
  "build_chat_request cfg system_prompt user_message history =
     py_bind (build_messages system_prompt user_message history) (\<lambda>ms.
     py_bind (cfg_get cfg [''chat_parameters'']) (\<lambda>params.
     py_bind (py_item params ''max_tokens'') (\<lambda>mt.
     py_bind (py_item params ''temperature'') (\<lambda>te.
     py_bind (py_item params ''frequency_penalty'') (\<lambda>fp.
     py_bind (py_item params ''presence_penalty'') (\<lambda>pp.
     py_bind (py_item params ''top_p'') (\<lambda>tp.
     py_bind (py_item params ''top_k'') (\<lambda>tk.
       Inr \<lparr>messages = ms, max_tokens = mt, temperature = te, frequency_penalty = fp,
            presence_penalty = pp, top_p = tp, top_k = tk\<rparr>))))))))"

record chat_details =
  model_id :: pyval
  request :: chat_request
  compartment_id :: pyval

definition build_chat_detail :: "pyval \<Rightarrow> chat_request \<Rightarrow> py_error + chat_details" where
  "build_chat_detail cfg req =
     py_bind (cfg_get cfg [''service'', ''model_ocid'']) (\<lambda>m.
     py_bind (cfg_get cfg [''oci'', ''compartment_id'']) (\<lambda>c.
       Inr \<lparr>model_id = m, request = req, compartment_id = c\<rparr>))"

section \<open>Response text extraction\<close>

text \<open>
  \<open>ShoppingAssistant._extract_response_text\<close>, applied to the payload
  \<open>chat_response.data\<close>.  \<open>json_loads\<close> is \<open>json.loads\<close>, with \<open>None\<close>
  when it raises.
\<close>

definition py_strip :: "pyval \<Rightarrow> py_error + string" where
  "py_strip v = (case v of PStr s \<Rightarrow> Inr (strip s) | _ \<Rightarrow> Inl AttributeError)"

definition text_by_attributes :: "pyval \<Rightarrow> py_error + string" where
  "text_by_attributes v =
     py_bind (py_getattr v ''choices'') (\<lambda>choices.
     py_bind (py_index0 choices) (\<lambda>choice.
     py_bind (py_getattr choice ''message'') (\<lambda>m.
     py_bind (py_getattr m ''content'') (\<lambda>c.
     py_bind (py_index0 c) (\<lambda>part.
     py_bind (py_getattr part ''text'') py_strip)))))"

definition text_by_keys :: "pyval \<Rightarrow> py_error + string" where
  "text_by_keys payload =
     py_bind (py_item payload ''chat_response'') (\<lambda>r.
     py_bind (py_item r ''choices'') (\<lambda>choices.
     py_bind (py_index0 choices) (\<lambda>choice.
     py_bind (py_item choice ''message'') (\<lambda>m.
     py_bind (py_item m ''content'') (\<lambda>c.
     py_bind (py_index0 c) (\<lambda>part.
     py_bind (py_item part ''text'') py_strip))))))"

definition extract_response_text ::
  "(pyval \<Rightarrow> string) \<Rightarrow> (string \<Rightarrow> pyval option) \<Rightarrow> pyval \<Rightarrow> py_error + string"
where
  "extract_response_text repr json_loads data =
     (if hasattr data ''chat_response''
      then py_bind (py_getattr data ''chat_response'') text_by_attributes
      else if hasattr data ''choices''
      then text_by_attributes data
      else
        (case json_loads (py_str repr data) of
           None \<Rightarrow> Inr (py_str repr data)
         | Some payload \<Rightarrow>
             (case text_by_keys payload of
                Inl e \<Rightarrow> Inr (py_str repr data)
              | Inr text \<Rightarrow> Inr text)))"

section \<open>The chat call\<close>

text \<open>
  \<open>ShoppingAssistant.get_response\<close>.  The collaborators of one call are given:
  the outcomes of the two fetches, the inference client, the formatting of the system
  prompt.  The clock is explicit: the call starts at reading \<open>clock\<close>, each step
  takes the time \<open>durations\<close> gives it, and \<open>time.time()\<close> returns the reading
  reached.  The debugging prints are left out.
\<close>

record assistant =
  cfg :: pyval
  catalog :: product_catalog
  cart :: shopping_cart

record collaborators =
  cart_outcome :: http_outcome
  cart_stamp :: string
  catalog_outcome :: http_outcome
  catalog_stamp :: string
  system_prompt_of :: "assistant \<Rightarrow> pyval \<Rightarrow> py_error + string"
  client_chat :: "chat_details \<Rightarrow> py_error + pyval"
  repr_of :: "pyval \<Rightarrow> string"
  json_loads_of :: "string \<Rightarrow> pyval option"

record durations =
  refresh_seconds :: real
  build_seconds :: real
  detail_seconds :: real
  chat_seconds :: real
  extract_seconds :: real

definition refresh_data :: "collaborators \<Rightarrow> assistant \<Rightarrow> bool \<times> assistant" where
  "refresh_data env a =
     (case ShoppingCart_refresh (repr_of env) (cart a) (cart_outcome env) (cart_stamp env) of
        (cart_success, cart') \<Rightarrow>
          (case ProductCatalog_refresh (catalog a) (catalog_outcome env) (catalog_stamp env) of
             (catalog_success, catalog') \<Rightarrow>
               (cart_success \<and> catalog_success, a\<lparr>cart := cart', catalog := catalog'\<rparr>)))"

definition get_response ::
  "collaborators \<Rightarrow> durations \<Rightarrow> real \<Rightarrow> assistant \<Rightarrow> pyval \<Rightarrow> pyval list \<Rightarrow> pyval \<Rightarrow>
     (py_error + (string \<times> real)) \<times> assistant"
where
  "get_response env d clock a user_message history uid =
     (let a1 = snd (refresh_data env a);
          start = clock + refresh_seconds d
      in
        (case
           py_bind (build_chat_request (cfg a1) (system_prompt_of env a1 uid) user_message history)
             (\<lambda>chat_request.
           py_bind (build_chat_detail (cfg a1) chat_request) (\<lambda>chat_detail.
           py_bind (client_chat env chat_detail) (\<lambda>response.
             (let elapsed = (start + build_seconds d + detail_seconds d + chat_seconds d) - start
              in py_bind (extract_response_text (repr_of env) (json_loads_of env) response)
                   (\<lambda>text. Inr (text, elapsed))))))
         of r \<Rightarrow> (r, a1)))"

section \<open>Notions the properties are stated with\<close>

text \<open>
  The mapping of a history role as the code has it (the role is compared after
  \<open>upper()\<close>) and as the design text words it (the three lower-case names), the
  messages one history entry contributes under a mapping, and the whole sequence.
\<close>

definition mapped_role :: "string \<Rightarrow> oci_role option" where
  "mapped_role r =
     (if upper r = ''USER'' then Some ROLE_USER
      else if upper r = ''MODEL'' \<or> upper r = ''ASSISTANT'' then Some ROLE_ASSISTANT
      else None)"



text \<open>
  A history entry the loop passes without an exception: a dict whose \<open>role\<close> is a
  string and which has a \<open>content\<close> when its role is one that is kept.
\<close>

definition entry_ok :: "pyval \<Rightarrow> bool" where
  "entry_ok msg =
     (case msg of
        PDict kvs \<Rightarrow>
          (case map_of kvs ''role'' of
             Some (PStr r) \<Rightarrow> mapped_role r = None \<or> map_of kvs ''content'' \<noteq> None
           | _ \<Rightarrow> False)
      | _ \<Rightarrow> False)"



text \<open>
  The text at \<open>choices[0].message.content[0].text\<close> of an SDK object, and at
  \<open>["chat_response"]["choices"][0]["message"]["content"][0]["text"]\<close> of a decoded
  JSON value, when the path exists and ends in a string.
\<close>

definition attribute_text :: "pyval \<Rightarrow> string option" where
  "attribute_text v =
     (case v of
        PObj a \<Rightarrow>
          (case map_of a ''choices'' of
             Some (PList (PObj c # _)) \<Rightarrow>
               (case map_of c ''message'' of
                  Some (PObj m) \<Rightarrow>
                    (case map_of m ''content'' of
                       Some (PList (PObj p # _)) \<Rightarrow>
                         (case map_of p ''text'' of Some (PStr t) \<Rightarrow> Some t | _ \<Rightarrow> None)
                     | _ \<Rightarrow> None)
                | _ \<Rightarrow> None)
           | _ \<Rightarrow> None)
      | _ \<Rightarrow> None)"

definition key_text :: "pyval \<Rightarrow> string option" where
  "key_text payload =
     (case payload of
        PDict kvs \<Rightarrow>
          (case map_of kvs ''chat_response'' of
             Some (PDict r) \<Rightarrow>
               (case map_of r ''choices'' of
                  Some (PList (PDict c # _)) \<Rightarrow>
                    (case map_of c ''message'' of
                       Some (PDict m) \<Rightarrow>
                         (case map_of m ''content'' of
                            Some (PList (PDict p # _)) \<Rightarrow>
                              (case map_of p ''text'' of Some (PStr t) \<Rightarrow> Some t | _ \<Rightarrow> None)
                          | _ \<Rightarrow> None)
                     | _ \<Rightarrow> None)
                | _ \<Rightarrow> None)
           | _ \<Rightarrow> None)
      | _ \<Rightarrow> None)"

section \<open>Example values\<close>

definition echo :: "identity \<Rightarrow> string" where
  "echo ident = user_name ident"

definition example_cfg :: pyval where
  "example_cfg =
     PDict [(''chat_parameters'',
               PDict [(''max_tokens'', PInt 600), (''temperature'', PInt 1),
                      (''frequency_penalty'', PInt 0), (''presence_penalty'', PInt 0),
                      (''top_p'', PFloat 0.75), (''top_k'', PInt (- 1))]),
            (''service'', PDict [(''model_ocid'', PStr ''model'')]),
            (''oci'', PDict [(''compartment_id'', PStr ''compartment'')])]"

definition example_reply :: pyval where
  "example_reply =
     PObj [(''chat_response'',
       PObj [(''choices'',
         PList [PObj [(''message'',
           PObj [(''content'', PList [PObj [(''text'', PStr '' hi '')]])])]])])]"

definition example_assistant :: assistant where
  "example_assistant =
     \<lparr>cfg = example_cfg,
      catalog = \<lparr>products = [], catalog_last_updated = None\<rparr>,
      cart = \<lparr>cart_items = Map.empty, cart_last_updated = None\<rparr>\<rparr>"

definition example_env :: collaborators where
  "example_env =
     \<lparr>cart_outcome = RequestFailed, cart_stamp = ''t'',
      catalog_outcome = RequestFailed, catalog_stamp = ''t'',
      system_prompt_of = (\<lambda>a uid. Inr ''You are a helpful shopping assistant''),
      client_chat = (\<lambda>detail. Inr example_reply),
      repr_of = (\<lambda>v. ''<object>''),
      json_loads_of = (\<lambda>s. None)\<rparr>"

definition example_durations :: durations where
  "example_durations =
     \<lparr>refresh_seconds = 5, build_seconds = 1, detail_seconds = 0, chat_seconds = 2,
      extract_seconds = 0\<rparr>"



definition example_catalog :: product_catalog where
  "example_catalog =
     \<lparr>products = [PDict [(''id'', PInt 1), (''name'', PStr ''pen'')]],
      catalog_last_updated = Some ''t0''\<rparr>"

definition example_cart :: shopping_cart where
  "example_cart =
     \<lparr>cart_items = [''7'' \<mapsto> [PDict [(''name'', PStr ''pen'')]]],
      cart_last_updated = Some ''t0''\<rparr>"

section \<open>Properties of the rate limiter\<close>


lemma is_allowed_limits:
  "is_allowed rl u r t = Inr (a, c, rl') \<Longrightarrow> limits rl' = limits rl"
  by (auto simp: is_allowed_def Let_def split: option.splits if_splits)


















text \<open>
  Claim C4, amended at the boundary of the pruning step.  With the constructor's policy
  table every call returns: it takes the policy of the role (the \<open>user\<close> policy
  for any role that is not \<open>admin\<close>), drops the user's timestamps that are
  \<open>window\<close> seconds old or older (\<open>t \<le> now - window\<close>), refuses when the
  remaining ones number \<open>max_requests\<close> or more, storing the pruned list and
  appending nothing, and otherwise stores the pruned list with \<open>now\<close> appended.
\<close>

theorem is_allowed_steps:
  assumes "limits rl = limits RateLimiter_init"
  shows "\<exists>allowed policy rl'.
     is_allowed rl uid r now = Inr (allowed, policy, rl')
     \<and> policy = (if r = ''admin'' then \<lparr>max_requests = 50, window = 60\<rparr>
                  else \<lparr>max_requests = 10, window = 60\<rparr>)
     \<and> allowed = (length [t \<leftarrow> requests_get rl uid. \<not> t \<le> now - real (window policy)] < max_requests policy)
     \<and> requests rl' = (requests rl)(uid \<mapsto>
          (if allowed then [t \<leftarrow> requests_get rl uid. \<not> t \<le> now - real (window policy)] @ [now]
           else [t \<leftarrow> requests_get rl uid. \<not> t \<le> now - real (window policy)]))
     \<and> limits rl' = limits rl"
proof -
  have eq: "(\<lambda>t. now - t < 60) = (\<lambda>t. \<not> t \<le> now - 60)" by (rule ext) auto
  show ?thesis
    using assms
    by (auto simp: is_allowed_def RateLimiter_init_def Let_def eq)
qed

text \<open>A refused call under an unrecognised role, at a limiter with the policy table.\<close>

theorem is_allowed_steps_witness:
  "is_allowed (RateLimiter_init\<lparr>requests := [''7'' \<mapsto> [0, 1, 2, 3, 4, 5, 6, 7, 8, 9]]\<rparr>) ''7'' ''guest'' 59
     = Inr (False, \<lparr>max_requests = 10, window = 60\<rparr>,
            RateLimiter_init\<lparr>requests := [''7'' \<mapsto> [0, 1, 2, 3, 4, 5, 6, 7, 8, 9]]\<rparr>)"
  using is_allowed_steps [of "RateLimiter_init\<lparr>requests := [''7'' \<mapsto> [0, 1, 2, 3, 4, 5, 6, 7, 8, 9]]\<rparr>" "''7''" "''guest''" 59]
  by (auto simp: requests_get_def)

text \<open>
  Claim C4 as worded prunes the timestamps older than \<open>now - window_seconds\<close>.
  After ten calls at times 0 to 9 a call of role \<open>user\<close> at time 60 then has ten
  timestamps left and is refused; the code prunes the timestamp 0 too and admits it.
\<close>

theorem pruning_boundary_counterexample:
  "is_allowed (RateLimiter_init\<lparr>requests := [''7'' \<mapsto> [0, 1, 2, 3, 4, 5, 6, 7, 8, 9]]\<rparr>) ''7'' ''user'' 60
     = Inr (True, \<lparr>max_requests = 10, window = 60\<rparr>,
            RateLimiter_init\<lparr>requests := [''7'' \<mapsto> [1, 2, 3, 4, 5, 6, 7, 8, 9, 60]]\<rparr>)
   \<and> length (remaining_as_specified [0, 1, 2, 3, 4, 5, 6, 7, 8, 9] 60 60) = 10"
  by (simp add: is_allowed_def RateLimiter_init_def requests_get_def remaining_as_specified_def Let_def)


text \<open>
  Claim C9.  The timestamps are recorded under the user id alone.  A call admitted
  under one role appends its time to the list that the next call of the same user id
  counts, whatever the role of that next call; the role of a call only picks the bound
  (50 for \<open>admin\<close>, 10 otherwise) that the count is compared with.
\<close>

theorem record_shared_across_roles:
  assumes "limits rl = limits RateLimiter_init"
    and "is_allowed rl uid role1 t1 = Inr (True, c1, rl1)"
    and "is_allowed rl1 uid role2 t2 = Inr (a2, c2, rl2)"
  shows "requests_get rl1 uid = [t \<leftarrow> requests_get rl uid. t1 - t < 60] @ [t1]
     \<and> a2 = (length [t \<leftarrow> requests_get rl1 uid. t2 - t < 60] < max_requests c2)
     \<and> max_requests c2 = (if role2 = ''admin'' then 50 else 10)
     \<and> requests_get rl2 uid =
         (if a2 then [t \<leftarrow> requests_get rl1 uid. t2 - t < 60] @ [t2]
          else [t \<leftarrow> requests_get rl1 uid. t2 - t < 60])"
proof -
  have l1: "limits rl1 = limits RateLimiter_init"
    using is_allowed_limits [OF assms(2)] assms(1) by simp
  have first: "requests_get rl1 uid = [t \<leftarrow> requests_get rl uid. t1 - t < 60] @ [t1]"
    using assms(1,2)
    by (auto simp: is_allowed_def RateLimiter_init_def Let_def requests_get_def split: if_splits)
  have second: "a2 = (length [t \<leftarrow> requests_get rl1 uid. t2 - t < 60] < max_requests c2)
     \<and> max_requests c2 = (if role2 = ''admin'' then 50 else 10)
     \<and> requests_get rl2 uid =
         (if a2 then [t \<leftarrow> requests_get rl1 uid. t2 - t < 60] @ [t2]
          else [t \<leftarrow> requests_get rl1 uid. t2 - t < 60])"
    using l1 assms(3)
    by (auto simp: is_allowed_def RateLimiter_init_def Let_def requests_get_def split: if_splits)
  from first second show ?thesis by simp
qed

text \<open>
  Nine earlier calls and a tenth admitted as \<open>admin\<close>: the next call of the same
  user id as \<open>user\<close> is refused, although no ten calls were made as \<open>user\<close>.
\<close>

theorem record_shared_across_roles_witness:
  "limits (RateLimiter_init\<lparr>requests := [''7'' \<mapsto> [1, 2, 3, 4, 5, 6, 7, 8, 9]]\<rparr>) = limits RateLimiter_init
   \<and> is_allowed (RateLimiter_init\<lparr>requests := [''7'' \<mapsto> [1, 2, 3, 4, 5, 6, 7, 8, 9]]\<rparr>) ''7'' ''admin'' 10
       = Inr (True, \<lparr>max_requests = 50, window = 60\<rparr>,
              RateLimiter_init\<lparr>requests := [''7'' \<mapsto> [1, 2, 3, 4, 5, 6, 7, 8, 9, 10]]\<rparr>)
   \<and> is_allowed (RateLimiter_init\<lparr>requests := [''7'' \<mapsto> [1, 2, 3, 4, 5, 6, 7, 8, 9, 10]]\<rparr>) ''7'' ''user'' 11
       = Inr (False, \<lparr>max_requests = 10, window = 60\<rparr>,
              RateLimiter_init\<lparr>requests := [''7'' \<mapsto> [1, 2, 3, 4, 5, 6, 7, 8, 9, 10]]\<rparr>)
   \<and> requests_get (RateLimiter_init\<lparr>requests := [''7'' \<mapsto> [1, 2, 3, 4, 5, 6, 7, 8, 9, 10]]\<rparr>) ''7''
       = [1, 2, 3, 4, 5, 6, 7, 8, 9, 10]"
proof -
  let ?rl = "RateLimiter_init\<lparr>requests := [''7'' \<mapsto> [1, 2, 3, 4, 5, 6, 7, 8, 9]]\<rparr>"
  let ?rl1 = "RateLimiter_init\<lparr>requests := [''7'' \<mapsto> [1, 2, 3, 4, 5, 6, 7, 8, 9, 10]]\<rparr>"
  have h1: "limits ?rl = limits RateLimiter_init" by simp
  have h2: "is_allowed ?rl ''7'' ''admin'' 10 = Inr (True, \<lparr>max_requests = 50, window = 60\<rparr>, ?rl1)"
    by (simp add: is_allowed_def RateLimiter_init_def requests_get_def Let_def)
  have h3: "is_allowed ?rl1 ''7'' ''user'' 11 = Inr (False, \<lparr>max_requests = 10, window = 60\<rparr>, ?rl1)"
    by (simp add: is_allowed_def RateLimiter_init_def requests_get_def Let_def)
  from record_shared_across_roles [OF h1 h2 h3]
  have "requests_get ?rl1 ''7'' = [1, 2, 3, 4, 5, 6, 7, 8, 9, 10]"
    by (simp add: requests_get_def)
  with h1 h2 h3 show ?thesis by blast
qed

section \<open>Properties of the authentication middleware\<close>

lemma require_auth_missing:
  "credentials_missing hs \<Longrightarrow> require_auth f hs rl now = Inr (Inl MissingCredentials, rl)"
  by (auto simp: require_auth_def credentials_missing_def)

lemma require_auth_bad_role:
  "\<not> credentials_missing hs \<Longrightarrow> role_invalid hs \<Longrightarrow>
     require_auth f hs rl now = Inr (Inl (rejection_of hs), rl)"
  by (auto simp: require_auth_def credentials_missing_def role_invalid_def rejection_of_def truthy_def
           split: option.splits)

lemma require_auth_malformed:
  "credentials_missing hs \<or> role_invalid hs \<Longrightarrow>
     require_auth f hs rl now = Inr (Inl (rejection_of hs), rl)"
  using require_auth_missing require_auth_bad_role by (cases "credentials_missing hs") (auto simp: rejection_of_def)

lemma handle_all_malformed:
  "\<forall>q \<in> set qs. credentials_missing (fst q) \<or> role_invalid (fst q) \<Longrightarrow>
     handle_all f rl qs = Inr (map (\<lambda>q. Inl (rejection_of (fst q))) qs, rl)"
  by (induction qs) (auto simp: require_auth_malformed)

lemma handle_all_append:
  "handle_all f rl (qs @ qs') =
     (case handle_all f rl qs of
        Inl e \<Rightarrow> Inl e
      | Inr (resps, rl') \<Rightarrow>
          (case handle_all f rl' qs' of
             Inl e \<Rightarrow> Inl e
           | Inr (resps', rl'') \<Rightarrow> Inr (resps @ resps', rl'')))"
  by (induction qs arbitrary: rl) (auto split: sum.splits)

text \<open>
  Claim C2.  The checks run in the order header presence, role membership, rate limit:
  a request with a missing header is answered \<open>MissingCredentials\<close> whatever its
  role, one with all headers and a role outside \<open>user\<close>, \<open>admin\<close> is answered
  \<open>InvalidRole\<close>.  Any number of such requests leaves the limiter as it was, so the
  request that follows them is answered exactly as if it had come first.
\<close>

theorem rejected_requests_consume_no_quota:
  assumes "\<forall>q \<in> set qs. credentials_missing (fst q) \<or> role_invalid (fst q)"
  shows "handle_all f rl qs = Inr (map (\<lambda>q. Inl (rejection_of (fst q))) qs, rl)
    \<and> handle_all f rl (qs @ [(hs, now)]) =
        (case require_auth f hs rl now of
           Inl e \<Rightarrow> Inl e
         | Inr (resp, rl') \<Rightarrow> Inr (map (\<lambda>q. Inl (rejection_of (fst q))) qs @ [resp], rl'))"
  using handle_all_malformed [OF assms, of f rl]
  by (simp add: handle_all_append split: sum.splits)

text \<open>
  Claim C10.  A header that is present with the empty string as its value is answered
  as an absent one: the request is rejected with \<open>MissingCredentials\<close> (status 401)
  and the limiter is not touched.
\<close>

theorem empty_header_is_missing:
  "require_auth f (hs\<lparr>x_user_id := Some []\<rparr>) rl now = Inr (Inl MissingCredentials, rl)
   \<and> require_auth f (hs\<lparr>x_user_id := Some []\<rparr>) rl now = require_auth f (hs\<lparr>x_user_id := None\<rparr>) rl now
   \<and> require_auth f (hs\<lparr>x_user_role := Some []\<rparr>) rl now = Inr (Inl MissingCredentials, rl)
   \<and> require_auth f (hs\<lparr>x_user_role := Some []\<rparr>) rl now = require_auth f (hs\<lparr>x_user_role := None\<rparr>) rl now
   \<and> require_auth f (hs\<lparr>x_user_name := Some []\<rparr>) rl now = Inr (Inl MissingCredentials, rl)
   \<and> require_auth f (hs\<lparr>x_user_name := Some []\<rparr>) rl now = require_auth f (hs\<lparr>x_user_name := None\<rparr>) rl now
   \<and> status_code MissingCredentials = 401"
  by (simp add: require_auth_def truthy_def)

text \<open>
  Eleven requests without a role header (one more than the \<open>user\<close> bound) and
  one with the role \<open>superadmin\<close>, then a valid request of the same user, which
  is admitted.
\<close>

theorem rejected_requests_consume_no_quota_witness:
  "handle_all echo RateLimiter_init
     (replicate 11 (\<lparr>x_user_id = Some ''7'', x_user_role = None, x_user_name = Some ''Ann''\<rparr>, 5)
      @ [(\<lparr>x_user_id = Some ''7'', x_user_role = Some ''superadmin'', x_user_name = Some ''Ann''\<rparr>, 5)]
      @ [(\<lparr>x_user_id = Some ''7'', x_user_role = Some ''user'', x_user_name = Some ''Ann''\<rparr>, 6)])
   = Inr (replicate 11 (Inl MissingCredentials) @ [Inl (InvalidRole ''superadmin'')] @ [Inr ''Ann''],
          RateLimiter_init\<lparr>requests := [''7'' \<mapsto> [6]]\<rparr>)"
proof -
  let ?bad = "\<lparr>x_user_id = Some ''7'', x_user_role = None, x_user_name = Some ''Ann''\<rparr>"
  let ?odd = "\<lparr>x_user_id = Some ''7'', x_user_role = Some ''superadmin'', x_user_name = Some ''Ann''\<rparr>"
  let ?good = "\<lparr>x_user_id = Some ''7'', x_user_role = Some ''user'', x_user_name = Some ''Ann''\<rparr>"
  have h: "\<forall>q \<in> set (replicate 11 (?bad, 5::real) @ [(?odd, 5)]).
             credentials_missing (fst q) \<or> role_invalid (fst q)"
    by (simp add: credentials_missing_def role_invalid_def truthy_def)
  have r: "rejection_of ?bad = MissingCredentials"
    by (simp add: rejection_of_def credentials_missing_def truthy_def)
  have r': "rejection_of ?odd = InvalidRole ''superadmin''"
    by (simp add: rejection_of_def credentials_missing_def truthy_def)
  have g: "require_auth echo ?good RateLimiter_init 6
      = Inr (Inr ''Ann'', RateLimiter_init\<lparr>requests := [''7'' \<mapsto> [6]]\<rparr>)"
    by (simp add: require_auth_def truthy_def is_allowed_def RateLimiter_init_def requests_get_def Let_def echo_def)
  from rejected_requests_consume_no_quota [OF h, of echo RateLimiter_init ?good 6]
  show ?thesis by (simp add: r r' g map_replicate)
qed

section \<open>Properties of the mirrors\<close>














text \<open>
  The default of \<open>item.get("user_id", "0")\<close> is taken for an absent key only: the
  key of an item whose \<open>user_id\<close> is \<open>null\<close> is \<open>str(None)\<close>.
\<close>

lemma null_user_id_bucket: "bucket_of repr [(''user_id'', PNone)] = ''None''"
  by (simp add: bucket_of_def py_str_def)






text \<open>
  Claim C5.  A refresh that fails after the body has been decoded does not leave the
  cache as it was: \<open>self.products\<close> and \<open>self.cart_items\<close> are emptied before
  the body is examined.  A body that is a JSON array, or whose \<open>items\<close> is
  \<open>null\<close>, makes the refresh return \<open>False\<close> with the catalogue emptied; a
  non-dict item after a good one leaves the cart with the items read so far.
\<close>

theorem failed_refresh_loses_cache:
  "get_all_products example_catalog = [PDict [(''id'', PInt 1), (''name'', PStr ''pen'')]]
   \<and> ProductCatalog_refresh example_catalog (Response 200 (Some (PList []))) ''t1''
       = (False, example_catalog\<lparr>products := []\<rparr>)
   \<and> ProductCatalog_refresh example_catalog (Response 200 (Some (PDict [(''items'', PNone)]))) ''t1''
       = (False, example_catalog\<lparr>products := []\<rparr>)
   \<and> get_all_products (example_catalog\<lparr>products := []\<rparr>) = []
   \<and> get_user_cart repr example_cart (PStr ''7'') = [PDict [(''name'', PStr ''pen'')]]
   \<and> ShoppingCart_refresh repr example_cart
         (Response 200 (Some (PDict [(''items'', PList [PDict [(''user_id'', PInt 8)], PInt 5])]))) ''t1''
       = (False, example_cart\<lparr>cart_items := [''8'' \<mapsto> [cart_item_of [(''user_id'', PInt 8)]]]\<rparr>)
   \<and> get_user_cart repr (example_cart\<lparr>cart_items := [''8'' \<mapsto> [cart_item_of [(''user_id'', PInt 8)]]]\<rparr>)
         (PStr ''7'') = []"
  by (simp add: ProductCatalog_refresh_def ShoppingCart_refresh_def load_products_def load_cart_def
        get_all_products_def get_user_cart_def example_catalog_def example_cart_def
        py_bind_def py_get_def py_iter_def bucket_of_def py_str_def)

text \<open>
  The failures before the body is examined (no response, an error status, a body that
  is not JSON) leave both caches untouched.
\<close>

lemma early_failure_keeps_cache:
  "outcome = RequestFailed \<or> (\<exists>status body. outcome = Response status body \<and> (400 \<le> status \<and> status < 600 \<or> body = None))
     \<Longrightarrow> ProductCatalog_refresh cat outcome stamp = (False, cat)
        \<and> ShoppingCart_refresh repr c outcome stamp = (False, c)"
  by (auto simp: ProductCatalog_refresh_def ShoppingCart_refresh_def load_products_def load_cart_def)

section \<open>Properties of prompt assembly\<close>




lemma history_loop_raises:
  "\<not> list_all entry_ok history \<Longrightarrow> \<exists>e. history_loop acc history = Inl e"
proof (induction history arbitrary: acc)
  case Nil
  then show ?case by simp
next
  case (Cons msg rest)
  show ?case
  proof (cases "entry_ok msg")
    case False
    then show ?thesis
      by (auto simp: entry_ok_def py_bind_def py_item_def py_upper_def mapped_role_def
               split: pyval.splits option.splits if_splits sum.splits)
  next
    case True
    with Cons.prems have "\<not> list_all entry_ok rest" by simp
    from Cons.IH [OF this] show ?thesis
      by (auto split: sum.splits)
  qed
qed




text \<open>An entry without a role, or with a role that is not a string, raises.\<close>

lemma entry_without_role_raises:
  "build_messages (Inr ''S'') (PStr ''q'') [PDict [(''content'', PStr ''hello'')]] = Inl KeyError
   \<and> build_messages (Inr ''S'') (PStr ''q'') [PDict [(''role'', PNone), (''content'', PStr ''hello'')]]
       = Inl AttributeError"
  by (simp add: build_messages_def py_bind_def py_item_def py_upper_def)


section \<open>Properties of the chat call\<close>

lemma py_bind_Inr: "py_bind m k = Inr y \<longleftrightarrow> (\<exists>x. m = Inr x \<and> k x = Inr y)"
  by (cases m) (simp_all add: py_bind_def)

lemma py_getattr_Inr: "py_getattr v n = Inr x \<longleftrightarrow> (\<exists>a. v = PObj a \<and> map_of a n = Some x)"
  by (cases v) (auto simp: py_getattr_def split: option.splits)

lemma py_item_Inr: "py_item v n = Inr x \<longleftrightarrow> (\<exists>a. v = PDict a \<and> map_of a n = Some x)"
  by (cases v) (auto simp: py_item_def split: option.splits)

lemma py_index0_Inr:
  "py_index0 v = Inr x \<longleftrightarrow> (\<exists>rest. v = PList (x # rest)) \<or> (\<exists>c rest. v = PStr (c # rest) \<and> x = PStr [c])"
  by (cases v) (auto simp: py_index0_def split: list.splits)

lemma py_strip_Inr: "py_strip v = Inr s \<longleftrightarrow> (\<exists>t. v = PStr t \<and> s = strip t)"
  by (cases v) (auto simp: py_strip_def)

lemma attribute_text_Some:
  "attribute_text v = Some t \<longleftrightarrow>
     (\<exists>a c r1 m p r2. v = PObj a \<and> map_of a ''choices'' = Some (PList (PObj c # r1))
        \<and> map_of c ''message'' = Some (PObj m)
        \<and> map_of m ''content'' = Some (PList (PObj p # r2))
        \<and> map_of p ''text'' = Some (PStr t))"
  unfolding attribute_text_def
  by (auto split: pyval.splits option.splits list.splits)

lemma text_by_attributes_Inr:
  "text_by_attributes v = Inr s \<longleftrightarrow> (\<exists>t. attribute_text v = Some t \<and> s = strip t)"
  unfolding text_by_attributes_def attribute_text_Some
  by (auto simp: py_bind_Inr py_getattr_Inr py_index0_Inr py_strip_Inr)


lemma key_text_Some:
  "key_text v = Some t \<longleftrightarrow>
     (\<exists>kvs r c r1 m p r2. v = PDict kvs \<and> map_of kvs ''chat_response'' = Some (PDict r)
        \<and> map_of r ''choices'' = Some (PList (PDict c # r1))
        \<and> map_of c ''message'' = Some (PDict m)
        \<and> map_of m ''content'' = Some (PList (PDict p # r2))
        \<and> map_of p ''text'' = Some (PStr t))"
  unfolding key_text_def
  by (auto split: pyval.splits option.splits list.splits)

lemma text_by_keys_Inr:
  "text_by_keys v = Inr s \<longleftrightarrow> (\<exists>t. key_text v = Some t \<and> s = strip t)"
  unfolding text_by_keys_def key_text_Some
  by (auto simp: py_bind_Inr py_item_Inr py_index0_Inr py_strip_Inr)

lemma text_by_attributes_cases:
  "(case attribute_text v of
      Some t \<Rightarrow> text_by_attributes v = Inr (strip t)
    | None \<Rightarrow> (\<exists>e. text_by_attributes v = Inl e))"
proof (cases "attribute_text v")
  case None
  then have "\<forall>s. text_by_attributes v \<noteq> Inr s" by (simp add: text_by_attributes_Inr)
  then have "\<exists>e. text_by_attributes v = Inl e" by (cases "text_by_attributes v") auto
  with None show ?thesis by simp
next
  case (Some t)
  then show ?thesis by (simp add: text_by_attributes_Inr)
qed

lemma text_by_keys_cases:
  "(case text_by_keys v of Inl e \<Rightarrow> dflt | Inr s \<Rightarrow> s)
     = (case key_text v of None \<Rightarrow> dflt | Some t \<Rightarrow> strip t)"
proof (cases "key_text v")
  case None
  then have "\<forall>s. text_by_keys v \<noteq> Inr s" by (simp add: text_by_keys_Inr)
  then have "\<exists>e. text_by_keys v = Inl e" by (cases "text_by_keys v") auto
  with None show ?thesis by auto
next
  case (Some t)
  then have "text_by_keys v = Inr (strip t)" by (simp add: text_by_keys_Inr)
  with Some show ?thesis by simp
qed

lemma hasattr_getattr: "hasattr v n \<Longrightarrow> \<exists>x. py_getattr v n = Inr x"
  by (cases v) (auto simp: hasattr_def py_getattr_def)

text \<open>
  What the code computes, shape by shape.  The shape is chosen by the attributes of
  the payload, in a fixed order: \<open>chat_response\<close> first, then \<open>choices\<close>,
  and the decoding of the text of the payload when it has neither.  The text found is
  returned trimmed.  Only the third shape is inside the exception handler.
\<close>

lemma extract_response_text_shapes:
  "(hasattr data ''chat_response'' \<longrightarrow>
      (\<exists>r. py_getattr data ''chat_response'' = Inr r
         \<and> (case attribute_text r of
               Some t \<Rightarrow> extract_response_text repr json_loads data = Inr (strip t)
             | None \<Rightarrow> (\<exists>e. extract_response_text repr json_loads data = Inl e))))
   \<and> (\<not> hasattr data ''chat_response'' \<and> hasattr data ''choices'' \<longrightarrow>
        (case attribute_text data of
           Some t \<Rightarrow> extract_response_text repr json_loads data = Inr (strip t)
         | None \<Rightarrow> (\<exists>e. extract_response_text repr json_loads data = Inl e)))
   \<and> (\<not> hasattr data ''chat_response'' \<and> \<not> hasattr data ''choices'' \<longrightarrow>
        extract_response_text repr json_loads data =
          Inr (case json_loads (py_str repr data) of
                 None \<Rightarrow> py_str repr data
               | Some payload \<Rightarrow>
                   (case key_text payload of None \<Rightarrow> py_str repr data | Some t \<Rightarrow> strip t)))"
proof (intro conjI impI)
  assume h: "hasattr data ''chat_response''"
  from hasattr_getattr [OF h] obtain r where r: "py_getattr data ''chat_response'' = Inr r" by blast
  have "extract_response_text repr json_loads data = text_by_attributes r"
    using h r by (simp add: extract_response_text_def py_bind_def)
  then have "(case attribute_text r of
               Some t \<Rightarrow> extract_response_text repr json_loads data = Inr (strip t)
             | None \<Rightarrow> (\<exists>e. extract_response_text repr json_loads data = Inl e))"
    using text_by_attributes_cases [of r] by (cases "attribute_text r") simp_all
  with r show "\<exists>r. py_getattr data ''chat_response'' = Inr r
         \<and> (case attribute_text r of
               Some t \<Rightarrow> extract_response_text repr json_loads data = Inr (strip t)
             | None \<Rightarrow> (\<exists>e. extract_response_text repr json_loads data = Inl e))"
    by blast
next
  assume "\<not> hasattr data ''chat_response'' \<and> hasattr data ''choices''"
  then have "extract_response_text repr json_loads data = text_by_attributes data"
    by (simp add: extract_response_text_def)
  then show "(case attribute_text data of
           Some t \<Rightarrow> extract_response_text repr json_loads data = Inr (strip t)
         | None \<Rightarrow> (\<exists>e. extract_response_text repr json_loads data = Inl e))"
    using text_by_attributes_cases [of data] by (cases "attribute_text data") simp_all
next
  assume n: "\<not> hasattr data ''chat_response'' \<and> \<not> hasattr data ''choices''"
  show "extract_response_text repr json_loads data =
          Inr (case json_loads (py_str repr data) of
                 None \<Rightarrow> py_str repr data
               | Some payload \<Rightarrow>
                   (case key_text payload of None \<Rightarrow> py_str repr data | Some t \<Rightarrow> strip t))"
  proof (cases "json_loads (py_str repr data)")
    case None
    with n show ?thesis by (simp add: extract_response_text_def)
  next
    case (Some payload)
    have "extract_response_text repr json_loads data
        = Inr (case text_by_keys payload of Inl e \<Rightarrow> py_str repr data | Inr s \<Rightarrow> s)"
      using n Some by (simp add: extract_response_text_def split: sum.splits)
    then show ?thesis using Some text_by_keys_cases [of "py_str repr data" payload] by simp
  qed
qed

text \<open>One payload for each of the three shapes.\<close>

lemma extract_response_text_examples:
  "hasattr example_reply ''chat_response''
   \<and> extract_response_text (\<lambda>v. ''<object>'') (\<lambda>s. None) example_reply = Inr ''hi''
   \<and> \<not> hasattr (PObj [(''choices'', PNone)]) ''chat_response''
   \<and> hasattr (PObj [(''choices'', PNone)]) ''choices''
   \<and> (\<exists>e. extract_response_text (\<lambda>v. ''<object>'') (\<lambda>s. None) (PObj [(''choices'', PNone)]) = Inl e)
   \<and> \<not> hasattr (PStr ''busy'') ''chat_response''
   \<and> \<not> hasattr (PStr ''busy'') ''choices''
   \<and> extract_response_text (\<lambda>v. ''<object>'') (\<lambda>s. None) (PStr ''busy'') = Inr ''busy''"
proof -
  have a: "hasattr example_reply ''chat_response''"
    by (simp add: hasattr_def example_reply_def)
  have b: "\<not> hasattr (PObj [(''choices'', PNone)]) ''chat_response'' \<and> hasattr (PObj [(''choices'', PNone)]) ''choices''"
    by (simp add: hasattr_def)
  have c: "\<not> hasattr (PStr ''busy'') ''chat_response'' \<and> \<not> hasattr (PStr ''busy'') ''choices''"
    by (simp add: hasattr_def)
  have 1: "extract_response_text (\<lambda>v. ''<object>'') (\<lambda>s. None) example_reply = Inr ''hi''"
    using extract_response_text_shapes [of example_reply "\<lambda>v. ''<object>''" "\<lambda>s. None"] a
    by (simp add: example_reply_def py_getattr_def attribute_text_def strip_def isspace_def)
  have 2: "\<exists>e. extract_response_text (\<lambda>v. ''<object>'') (\<lambda>s. None) (PObj [(''choices'', PNone)]) = Inl e"
    using extract_response_text_shapes [of "PObj [(''choices'', PNone)]" "\<lambda>v. ''<object>''" "\<lambda>s. None"] b
    by (simp add: attribute_text_def)
  have 3: "extract_response_text (\<lambda>v. ''<object>'') (\<lambda>s. None) (PStr ''busy'') = Inr ''busy''"
    using extract_response_text_shapes [of "PStr ''busy''" "\<lambda>v. ''<object>''" "\<lambda>s. None"] c
    by (simp add: py_str_def)
  from a b c 1 2 3 show ?thesis by blast
qed

text \<open>
  Claim C7.  The extractor is to try the three shapes in order, to return the raw
  text of the payload when every structured attempt fails, and never to raise.  The
  code does so on the third shape only.  A payload with a \<open>chat_response\<close>
  attribute (or a \<open>choices\<close> attribute) whose \<open>choices\<close> is empty raises
  \<open>IndexError\<close>: the later shapes are not tried and the raw text is not returned.
  The same failure on the third shape, a decoded text whose \<open>choices\<close> is empty,
  is caught and gives the raw text.
\<close>

theorem empty_choices_raises:
  "extract_response_text (\<lambda>v. ''<response>'') (\<lambda>s. None)
     (PObj [(''chat_response'', PObj [(''choices'', PList [])])]) = Inl IndexError
   \<and> extract_response_text (\<lambda>v. ''<response>'') (\<lambda>s. None)
     (PObj [(''choices'', PList [])]) = Inl IndexError
   \<and> extract_response_text (\<lambda>v. ''<response>'')
       (\<lambda>s. if s = ''json text'' then Some (PDict [(''chat_response'', PDict [(''choices'', PList [])])])
            else None)
       (PStr ''json text'') = Inr ''json text''"
  by (simp add: extract_response_text_def hasattr_def py_bind_def py_getattr_def text_by_attributes_def
        text_by_keys_def py_item_def py_index0_def py_str_def)

text \<open>
  Claim C8, amended.  The clock is read after the refresh of the mirrors and before
  the request is built, and again when the inference call has returned: the elapsed
  time is the time of building the request (prompt assembly included), of building
  the chat details and of the inference call.  The refresh and the extraction of the
  text are outside it.
\<close>

theorem elapsed_spans_build_and_chat:
  assumes "get_response env d clock a user_message history uid = (Inr (reply, elapsed), a')"
  shows "elapsed = build_seconds d + detail_seconds d + chat_seconds d"
  using assms
  by (auto simp: get_response_def Let_def py_bind_def split: sum.splits)

text \<open>
  A call in which the refresh takes 5 seconds, the building of the request 1 second
  and the inference call 2 seconds.
\<close>

lemma example_get_response:
  "get_response example_env example_durations 100 example_assistant (PStr ''q'') [] (PStr ''7'')
     = (Inr (''hi'', 3), example_assistant)"
  by (simp add: get_response_def refresh_data_def ProductCatalog_refresh_def ShoppingCart_refresh_def
        load_cart_def load_products_def example_env_def
        example_assistant_def example_durations_def example_cfg_def example_reply_def
        build_chat_request_def build_messages_def build_chat_detail_def py_bind_def py_item_def
        extract_response_text_def hasattr_def py_getattr_def text_by_attributes_def py_index0_def
        py_strip_def strip_def isspace_def Let_def)


theorem elapsed_spans_build_and_chat_witness:
  "get_response example_env example_durations 100 example_assistant (PStr ''q'') [] (PStr ''7'')
     = (Inr (''hi'', 3), example_assistant)
   \<and> build_seconds example_durations + detail_seconds example_durations + chat_seconds example_durations = 3"
  using elapsed_spans_build_and_chat [OF example_get_response] example_get_response
  by simp


text \<open>
  Claim C8 as worded measures the inference call only, which takes 2 seconds in the
  example; the elapsed time returned is 3 seconds.
\<close>

theorem elapsed_includes_prompt_assembly_counterexample:
  "(case fst (get_response example_env example_durations 100 example_assistant (PStr ''q'') [] (PStr ''7'')) of
      Inl e \<Rightarrow> False
    | Inr (reply, elapsed) \<Rightarrow> elapsed = 3 \<and> chat_seconds example_durations = 2)"
  by (simp add: example_get_response) (simp add: example_durations_def)

end
